theory Spec2Isabelle
  imports
    Main
    "HOL-Library.Word"
    "HOL-Library.Char_ord"
    "HOL-Library.List_Lexorder"
begin

section \<open>Strings: \<open>strings.Replace\<close> and \<open>quote\<close>\<close>

text \<open>
  Go strings are byte sequences; \<open>string\<close> (a list of 8-bit \<open>char\<close>) is the same data.
  The single quote is the byte 0x27 and the zero byte is 0x00.
\<close>

abbreviation SQ :: char where "SQ \<equiv> CHR 0x27"
abbreviation NUL :: char where "NUL \<equiv> CHR 0x00"

text \<open>
  \<open>strings.Replace(s, old, new, -1)\<close>: every non-overlapping instance of \<open>old\<close>, found
  from the left, is replaced by \<open>new\<close>. \<open>quote\<close> only calls it with a one-byte \<open>old\<close>;
  for the empty \<open>old\<close> (where Go inserts \<open>new\<close> at every rune boundary) this model
  returns \<open>s\<close> and is not meant to be used.
\<close>

function Replace :: "string \<Rightarrow> string \<Rightarrow> string \<Rightarrow> string" where
  "Replace [] old new = []"
| "Replace (c # cs) old new =
     (if old \<noteq> [] \<and> take (length old) (c # cs) = old
      then new @ Replace (drop (length old) (c # cs)) old new
      else c # Replace cs old new)"
  by pat_completeness auto
termination
  by (relation "measure (\<lambda>(s, old, new). length s)") auto

text \<open>
  \<^verbatim>\<open>
  func quote(s string) string {
      s = strings.Replace(s, "'", "''", -1)
      s = strings.Replace(s, "\000", "", -1)
      return "'" + s + "'"
  }
  \<close>
\<close>

definition quote :: "string \<Rightarrow> string" where
  "quote s =
     (let s1 = Replace s [SQ] [SQ, SQ];
          s2 = Replace s1 [NUL] []
      in [SQ] @ s2 @ [SQ])"

text \<open>
  The escaping as the specification words it: every single quote doubled, every NUL byte
  removed, the result wrapped in single quotes.
\<close>

definition escape_spec :: "string \<Rightarrow> string" where
  "escape_spec s =
     concat (map (\<lambda>c. if c = SQ then [SQ, SQ] else if c = NUL then [] else [c]) s)"

definition quote_spec :: "string \<Rightarrow> string" where
  "quote_spec s = [SQ] @ escape_spec s @ [SQ]"

text \<open>
  How a database reads a string literal: the text between the outer quotes, with every
  doubled quote standing for one quote. \<open>None\<close> when the text is not one literal.
\<close>

fun unquote_body :: "string \<Rightarrow> string option" where
  "unquote_body [] = None"
| "unquote_body [c] = (if c = SQ then Some [] else None)"
| "unquote_body (c # d # cs) =
     (if c = SQ then (if d = SQ then map_option ((#) SQ) (unquote_body cs) else None)
      else map_option ((#) c) (unquote_body (d # cs)))"

definition unquote :: "string \<Rightarrow> string option" where
  "unquote l = (case l of [] \<Rightarrow> None | c # cs \<Rightarrow> if c = SQ then unquote_body cs else None)"

section \<open>The standard table: messages, statements and the database\<close>

subsection \<open>Time\<close>

text \<open>
  A \<open>time.Time\<close> is an instant, counted here in nanoseconds from Go's zero instant
  (January 1, year 1, 00:00:00 UTC), so \<open>IsZero\<close> is the test for 0. A \<open>time.Duration\<close>
  is a signed 64-bit count of nanoseconds. A \<open>timestamptz\<close> column holds microseconds.
  \<open>Format_rfc3339Micro t\<close> is the instant that the text \<open>t.Format(rfc3339Micro)\<close> denotes:
  the layout has six fractional digits, so what is below a microsecond is cut off.
\<close>

type_synonym time = int
type_synonym duration = "64 word"
type_synonym timestamptz = int

definition IsZero :: "time \<Rightarrow> bool" where
  "IsZero t = (t = 0)"

definition Add :: "time \<Rightarrow> duration \<Rightarrow> time" where
  "Add t d = t + sint d"

definition Format_rfc3339Micro :: "time \<Rightarrow> timestamptz" where
  "Format_rfc3339Micro t = t div 1000"

definition Minute :: duration where
  "Minute = 60000000000"

definition Millisecond :: duration where
  "Millisecond = 1000000"

subsection \<open>Messages\<close>

definition statusWait :: string where "statusWait = []"
definition statusDone :: string where "statusDone = ''done''"
definition statusGivenUp :: string where "statusGivenUp = ''givenUp''"

text \<open>\<open>Data interface{}\<close>: a byte slice, or any other Go value (of type \<open>'v\<close>).\<close>

datatype 'v data = Bytes string | Other 'v

record 'v StdMessage =
  MsgId :: "64 word"
  Queue :: string
  Data :: "'v data"
  Status :: string
  CreatedAt :: time
  TryCount :: "16 word"
  RetryAt :: time

definition QueueName :: "'v StdMessage \<Rightarrow> string" where
  "QueueName msg = Queue msg"

definition ConsumeAt :: "'v StdMessage \<Rightarrow> time" where
  "ConsumeAt msg = RetryAt msg"

text \<open>
  A \<open>Message\<close> handed to the table is a pointer to a \<open>StdMessage\<close>: an address in a
  store. An address the store does not hold is the nil pointer.
\<close>

type_synonym addr = nat
type_synonym 'v heap = "addr \<rightharpoonup> 'v StdMessage"

subsection \<open>Statements\<close>

text \<open>
  The statements the table builds with \<open>fmt.Sprintf\<close>, as syntax trees of the text.
  String literals are kept as the text that is put into the statement (quotes included);
  a timestamp literal is kept as the instant it denotes.
\<close>

datatype column = C_id | C_queue | C_data | C_status | C_created_at | C_try_count | C_retry_at

datatype assign =
    Set_status string
  | Inc_try_count
  | Set_retry_at timestamptz

record select_stmt =
  sel_columns :: "column list"
  sel_from :: string
  sel_queue_in :: "string list"
  sel_status :: string
  sel_order_by :: "column list"
  sel_limit :: nat
  sel_skip_locked :: bool

record update_stmt =
  upd_table :: string
  upd_set :: "assign list"
  upd_where_id :: int

record insert_stmt =
  ins_into :: string
  ins_queue :: string
  ins_data :: string
  ins_status :: string
  ins_created_at :: timestamptz
  ins_try_count :: int
  ins_retry_at :: timestamptz

datatype stmt = Select select_stmt | Update update_stmt | Insert insert_stmt

subsection \<open>The database\<close>

text \<open>
  One table with the columns of \<open>createSql\<close>: \<open>id bigserial\<close>, \<open>queue text\<close>,
  \<open>status text\<close>, \<open>created_at timestamptz\<close>, \<open>try_count smallint\<close>,
  \<open>retry_at timestamptz\<close>, \<open>data jsonb\<close> (held as the text that was given).
  \<open>executed\<close> lists the statements sent so far.
\<close>

record row =
  r_id :: int
  r_queue :: string
  r_data :: string
  r_status :: string
  r_created_at :: timestamptz
  r_try_count :: int
  r_retry_at :: timestamptz

record db =
  rows :: "row list"
  next_id :: int
  executed :: "stmt list"

definition smallint_ok :: "int \<Rightarrow> bool" where
  "smallint_ok n = (- 32768 \<le> n \<and> n \<le> 32767)"

text \<open>The meaning of the statements; \<open>None\<close> when the database rejects the statement.\<close>

fun apply_assign :: "row \<Rightarrow> assign \<Rightarrow> row option" where
  "apply_assign r (Set_status l) = map_option (\<lambda>s. r\<lparr>r_status := s\<rparr>) (unquote l)"
| "apply_assign r Inc_try_count =
     (if smallint_ok (r_try_count r + 1) then Some (r\<lparr>r_try_count := r_try_count r + 1\<rparr>)
      else None)"
| "apply_assign r (Set_retry_at t) = Some (r\<lparr>r_retry_at := t\<rparr>)"

fun apply_assigns :: "row \<Rightarrow> assign list \<Rightarrow> row option" where
  "apply_assigns r [] = Some r"
| "apply_assigns r (a # as) =
     (case apply_assign r a of None \<Rightarrow> None | Some r' \<Rightarrow> apply_assigns r' as)"

fun update_rows :: "assign list \<Rightarrow> int \<Rightarrow> row list \<Rightarrow> row list option" where
  "update_rows as i [] = Some []"
| "update_rows as i (r # rs) =
     (if r_id r = i
      then (case apply_assigns r as of
              None \<Rightarrow> None
            | Some r' \<Rightarrow> map_option ((#) r') (update_rows as i rs))
      else map_option ((#) r) (update_rows as i rs))"

definition insert_row :: "insert_stmt \<Rightarrow> db \<Rightarrow> db option" where
  "insert_row s d =
     (case (unquote (ins_queue s), unquote (ins_data s), unquote (ins_status s)) of
        (Some q, Some dt, Some st) \<Rightarrow>
          if smallint_ok (ins_try_count s)
          then Some (d\<lparr>rows := rows d @
                 [\<lparr>r_id = next_id d, r_queue = q, r_data = dt, r_status = st,
                   r_created_at = ins_created_at s, r_try_count = ins_try_count s,
                   r_retry_at = ins_retry_at s\<rparr>],
                 next_id := next_id d + 1\<rparr>)
          else None
      | _ \<Rightarrow> None)"

fun run_stmt :: "stmt \<Rightarrow> db \<Rightarrow> db option" where
  "run_stmt (Select s) d = Some d"
| "run_stmt (Update s) d =
     map_option (\<lambda>rs. d\<lparr>rows := rs\<rparr>) (update_rows (upd_set s) (upd_where_id s) (rows d))"
| "run_stmt (Insert s) d = insert_row s d"

subsection \<open>What the code cannot decide\<close>

text \<open>
  The clock, \<open>json.Marshal\<close> (\<open>Inl\<close> is its error) and the failures of the database
  that are outside this model (a lost connection, a payload that is not JSON).
\<close>

datatype error = SerializationError string | DBError string | OtherError string

record 'v env =
  now :: time
  json_Marshal :: "'v \<Rightarrow> string + string"
  db_fault :: "stmt \<Rightarrow> string option"

text \<open>\<open>tx.Exec(sql)\<close> and \<open>db.Exec(sql)\<close>: the error, and the database afterwards.\<close>

definition Exec :: "'v env \<Rightarrow> stmt \<Rightarrow> db \<Rightarrow> error option \<times> db" where
  "Exec e sql d =
     (let d1 = d\<lparr>executed := executed d @ [sql]\<rparr>
      in case db_fault e sql of
           Some m \<Rightarrow> (Some (DBError m), d1)
         | None \<Rightarrow>
             (case run_stmt sql d1 of
                None \<Rightarrow> (Some (DBError ''statement rejected''), d1)
              | Some d2 \<Rightarrow> (None, d2)))"

subsection \<open>The table adapter\<close>

text \<open>
  \<open>earliestMessageSql\<close> is the cached claim statement; \<open>None\<close> stands for the empty
  string of the source (no statement cached). The mutex is not modelled.
\<close>

record stdTable =
  name :: string
  queues :: "string list"
  earliestMessageSql :: "stmt option"

definition SetQueues :: "stdTable \<Rightarrow> string list \<Rightarrow> stdTable" where
  "SetQueues table qs = table\<lparr>queues := qs, earliestMessageSql := None\<rparr>"

text \<open>
  \<^verbatim>\<open>
  SELECT id, queue, data, status, created_at, try_count, retry_at
  FROM %s
  WHERE queue IN (%s) AND status = '%s'
  ORDER BY retry_at
  LIMIT 1
  FOR UPDATE SKIP LOCKED
  \<close>
  with the table's name, the quoted queue names sorted and joined by commas, and
  \<open>statusWait\<close>.
\<close>

definition earliestMessageSelect :: "stdTable \<Rightarrow> select_stmt" where
  "earliestMessageSelect table =
     \<lparr>sel_columns = [C_id, C_queue, C_data, C_status, C_created_at, C_try_count, C_retry_at],
      sel_from = name table,
      sel_queue_in = sort (map quote (queues table)),
      sel_status = [SQ] @ statusWait @ [SQ],
      sel_order_by = [C_retry_at],
      sel_limit = 1,
      sel_skip_locked = True\<rparr>"

definition getEarliestMessageSql :: "stdTable \<Rightarrow> stmt \<times> stdTable" where
  "getEarliestMessageSql table =
     (case earliestMessageSql table of
        None \<Rightarrow>
          (let querySql = Select (earliestMessageSelect table)
           in (querySql, table\<lparr>earliestMessageSql := Some querySql\<rparr>))
      | Some cached \<Rightarrow> (cached, table))"

text \<open>
  \<^verbatim>\<open>UPDATE %s SET status = '%s', try_count = try_count+1, retry_at = '%s' WHERE id = %d\<close>
  with \<open>statusDone\<close> and the formatted \<open>time.Now()\<close>.
\<close>

definition MarkSuccess :: "'v env \<Rightarrow> stdTable \<Rightarrow> 'v StdMessage \<Rightarrow> db \<Rightarrow> error option \<times> db" where
  "MarkSuccess e table msg d =
     Exec e (Update \<lparr>upd_table = name table,
                     upd_set = [Set_status ([SQ] @ statusDone @ [SQ]), Inc_try_count,
                                Set_retry_at (Format_rfc3339Micro (now e))],
                     upd_where_id = sint (MsgId msg)\<rparr>) d"

text \<open>
  \<^verbatim>\<open>UPDATE %s SET try_count = try_count + 1,  retry_at = '%s' WHERE id = %d\<close>
  with the formatted \<open>time.Now().Add(retryAfter)\<close>.
\<close>

definition MarkRetry ::
  "'v env \<Rightarrow> stdTable \<Rightarrow> 'v StdMessage \<Rightarrow> duration \<Rightarrow> db \<Rightarrow> error option \<times> db" where
  "MarkRetry e table msg retryAfter d =
     Exec e (Update \<lparr>upd_table = name table,
                     upd_set = [Inc_try_count,
                                Set_retry_at (Format_rfc3339Micro (Add (now e) retryAfter))],
                     upd_where_id = sint (MsgId msg)\<rparr>) d"

text \<open>
  \<^verbatim>\<open>UPDATE %s SET status = '%s', try_count = try_count + 1, retry_at = '%s' WHERE id = %d\<close>
  with \<open>statusGivenUp\<close> and the formatted \<open>time.Now()\<close>.
\<close>

definition MarkGivenUp :: "'v env \<Rightarrow> stdTable \<Rightarrow> 'v StdMessage \<Rightarrow> db \<Rightarrow> error option \<times> db" where
  "MarkGivenUp e table msg d =
     Exec e (Update \<lparr>upd_table = name table,
                     upd_set = [Set_status ([SQ] @ statusGivenUp @ [SQ]), Inc_try_count,
                                Set_retry_at (Format_rfc3339Micro (now e))],
                     upd_where_id = sint (MsgId msg)\<rparr>) d"

text \<open>
  \<open>ProduceMessage\<close> works on the caller's message through its pointer \<open>p\<close>. A call either
  panics (nil pointer) or returns its error; the store and the database afterwards are
  returned with it.
  \<^verbatim>\<open>
  m := msg.(*StdMessage)
  jsonData, ok := m.Data.([]byte)
  if !ok {
      if data, err := json.Marshal(m.Data); err != nil { return err }
      else { jsonData = []byte(data) }
  }
  if m.CreatedAt.IsZero() { m.CreatedAt = time.Now() }
  if m.RetryAt.IsZero() { m.RetryAt = m.CreatedAt }
  INSERT INTO %s (queue, data, status, created_at, try_count, retry_at)
  VALUES (%s, %s, %s, '%s', %d, '%s')
  \<close>
\<close>

datatype 'a result = Panic | Return 'a

definition serialize :: "'v env \<Rightarrow> 'v data \<Rightarrow> string + string" where
  "serialize e dt = (case dt of Bytes b \<Rightarrow> Inr b | Other v \<Rightarrow> json_Marshal e v)"

definition fill_defaults :: "'v env \<Rightarrow> 'v StdMessage \<Rightarrow> 'v StdMessage" where
  "fill_defaults e m =
     (let m1 = (if IsZero (CreatedAt m) then m\<lparr>CreatedAt := now e\<rparr> else m);
          m2 = (if IsZero (RetryAt m1) then m1\<lparr>RetryAt := CreatedAt m1\<rparr> else m1)
      in m2)"

definition insertSql :: "stdTable \<Rightarrow> 'v StdMessage \<Rightarrow> string \<Rightarrow> stmt" where
  "insertSql table m jsonData =
     Insert \<lparr>ins_into = name table,
             ins_queue = quote (Queue m),
             ins_data = quote jsonData,
             ins_status = quote (Status m),
             ins_created_at = Format_rfc3339Micro (CreatedAt m),
             ins_try_count = uint (TryCount m),
             ins_retry_at = Format_rfc3339Micro (RetryAt m)\<rparr>"

definition ProduceMessage ::
  "'v env \<Rightarrow> stdTable \<Rightarrow> addr \<Rightarrow> 'v heap \<times> db \<Rightarrow> error option result \<times> 'v heap \<times> db" where
  "ProduceMessage e table p st =
     (case st of (h, d) \<Rightarrow>
        (case h p of
           None \<Rightarrow> (Panic, h, d)
         | Some m \<Rightarrow>
             (case serialize e (Data m) of
                Inl err \<Rightarrow> (Return (Some (SerializationError err)), h, d)
              | Inr jsonData \<Rightarrow>
                  (let m' = fill_defaults e m;
                       h' = h(p \<mapsto> m');
                       (err, d') = Exec e (insertSql table m' jsonData) d
                   in (Return err, h', d')))))"

subsection \<open>The meaning of the claim query\<close>

text \<open>
  \<open>ORDER BY\<close> compares rows column by column; text columns compare bytewise.
  \<open>order_le cs r r'\<close>: under \<open>ORDER BY cs\<close> the row \<open>r\<close> does not have to come after \<open>r'\<close>.
\<close>

fun col_less :: "column \<Rightarrow> row \<Rightarrow> row \<Rightarrow> bool" where
  "col_less C_id r r' = (r_id r < r_id r')"
| "col_less C_queue r r' = (r_queue r < r_queue r')"
| "col_less C_data r r' = (r_data r < r_data r')"
| "col_less C_status r r' = (r_status r < r_status r')"
| "col_less C_created_at r r' = (r_created_at r < r_created_at r')"
| "col_less C_try_count r r' = (r_try_count r < r_try_count r')"
| "col_less C_retry_at r r' = (r_retry_at r < r_retry_at r')"

fun col_eq :: "column \<Rightarrow> row \<Rightarrow> row \<Rightarrow> bool" where
  "col_eq C_id r r' = (r_id r = r_id r')"
| "col_eq C_queue r r' = (r_queue r = r_queue r')"
| "col_eq C_data r r' = (r_data r = r_data r')"
| "col_eq C_status r r' = (r_status r = r_status r')"
| "col_eq C_created_at r r' = (r_created_at r = r_created_at r')"
| "col_eq C_try_count r r' = (r_try_count r = r_try_count r')"
| "col_eq C_retry_at r r' = (r_retry_at r = r_retry_at r')"

fun order_le :: "column list \<Rightarrow> row \<Rightarrow> row \<Rightarrow> bool" where
  "order_le [] r r' = True"
| "order_le (c # cs) r r' = (col_less c r r' \<or> (col_eq c r r' \<and> order_le cs r r'))"

text \<open>
  The rows the \<open>WHERE\<close> clause keeps, in a table where other transactions hold locks on
  the rows with an id in \<open>locked\<close>: \<open>FOR UPDATE SKIP LOCKED\<close> leaves those out.
\<close>

definition candidates :: "select_stmt \<Rightarrow> int set \<Rightarrow> row list \<Rightarrow> row list" where
  "candidates s locked rs =
     filter (\<lambda>r. Some (r_queue r) \<in> set (map unquote (sel_queue_in s)) \<and>
                 unquote (sel_status s) = Some (r_status r) \<and>
                 \<not> (sel_skip_locked s \<and> r_id r \<in> locked)) rs"

text \<open>
  What \<open>QueryRow\<close> may give for the statement: no row (\<open>sql.ErrNoRows\<close>) when nothing is
  kept, and otherwise any kept row that no other kept row has to precede.
\<close>

definition may_return :: "select_stmt \<Rightarrow> int set \<Rightarrow> row list \<Rightarrow> row option \<Rightarrow> bool" where
  "may_return s locked rs res =
     (case res of
        None \<Rightarrow> candidates s locked rs = [] \<or> sel_limit s = 0
      | Some r \<Rightarrow>
          0 < sel_limit s \<and> r \<in> set (candidates s locked rs) \<and>
          list_all (order_le (sel_order_by s) r) (candidates s locked rs))"

section \<open>The consumer: dispatcher and loop\<close>

text \<open>
  The consumer works through the \<open>Table\<close> interface, a transaction and the registered
  handlers. What these answer is given by a \<open>world\<close>; what the consumer does with them
  is the list of its calls, in order. A \<open>Message\<close> is an interface value: nil (\<open>None\<close>)
  or a message.
\<close>

type_synonym 'v Message = "'v StdMessage option"

text \<open>The \<open>DBOrTx\<close> a mark operation is given: the claim transaction, or \<open>mq.DB\<close>.\<close>

datatype conn = ClaimTx | TheDB

datatype 'v event =
    E_BeginTx duration
  | E_EarliestMessage
  | E_Handler "'v Message"
  | E_MarkSuccess "'v Message"
  | E_MarkRetry conn "'v Message" duration
  | E_MarkGivenUp conn "'v Message"
  | E_TriggerConsume
  | E_Commit
  | E_Rollback
  | E_Cancel
  | E_LogError error
  | E_Record "error option"
  | E_Sleep duration
  | E_Wait duration
  | E_Go "'v event list"

text \<open>
  \<open>E_Go evs\<close> is a goroutine started with the \<open>go\<close> statement, with the calls it makes;
  \<open>E_Wait d\<close> is the \<open>select\<close> on a timer of \<open>d\<close> and the \<open>consumeNotify\<close> channel;
  \<open>E_Record err\<close> is \<open>mq.Logger.Record\<close> receiving the error of the function it runs.
\<close>

type_synonym 'v handler = "'v Message \<Rightarrow> duration \<times> bool \<times> error option"

text \<open>
  \<open>handlerOf\<close> is not part of the sources at hand: it is a parameter (\<open>Inl\<close> is its error,
  the unknown queue).
\<close>

record 'v world =
  handlerOf :: "'v Message \<Rightarrow> error + 'v handler"
  Table_MarkSuccess :: "'v Message \<Rightarrow> error option"
  Table_MarkRetry :: "conn \<Rightarrow> 'v Message \<Rightarrow> duration \<Rightarrow> error option"
  Table_MarkGivenUp :: "conn \<Rightarrow> 'v Message \<Rightarrow> error option"
  tx_Commit :: "error option"
  tx_Rollback :: "error option"
  DB_BeginTx :: "error option"
  Table_EarliestMessage :: "'v Message \<times> error option"
  time_Now :: time

text \<open>
  The engine: its configuration, and what it meets while it runs. \<open>validate\<close> and
  \<open>noQueues\<close> are not part of the sources at hand: \<open>validate_result\<close> is what
  \<open>mq.validate()\<close> returns, \<open>noQueues_at k\<close> what the \<open>k\<close>-th call of \<open>mq.noQueues()\<close>
  returns; \<open>world_at i\<close> is the world of the \<open>i\<close>-th call of \<open>consumeOne\<close>.
\<close>

record 'v SqlMQ =
  IdleWait :: duration
  ErrorWait :: duration
  TxTimeout :: duration
  CleanInterval :: duration
  validate_result :: "error option"
  noQueues_at :: "nat \<Rightarrow> bool"
  world_at :: "nat \<Rightarrow> 'v world"

definition log_error :: "error option \<Rightarrow> 'v event list" where
  "log_error r = (case r of None \<Rightarrow> [] | Some err2 \<Rightarrow> [E_LogError err2])"

text \<open>
  \<^verbatim>\<open>
  func (mq *SqlMQ) markFail(db DBOrTx, msg Message, retryAfter time.Duration) {
      if retryAfter >= 0 {
          if err := mq.Table.MarkRetry(db, msg, retryAfter); err != nil {
              mq.Logger.Error(err)
          } else {
              mq.TriggerConsume()
          }
      } else {
          if err := mq.Table.MarkGivenUp(db, msg); err != nil {
              mq.Logger.Error(err)
          }
      }
  }
  \<close>
\<close>

definition markFail :: "'v world \<Rightarrow> conn \<Rightarrow> 'v Message \<Rightarrow> duration \<Rightarrow> 'v event list" where
  "markFail w db msg retryAfter =
     (if 0 \<le>s retryAfter
      then (case Table_MarkRetry w db msg retryAfter of
              Some err \<Rightarrow> [E_MarkRetry db msg retryAfter, E_LogError err]
            | None \<Rightarrow> [E_MarkRetry db msg retryAfter, E_TriggerConsume])
      else (case Table_MarkGivenUp w db msg of
              Some err \<Rightarrow> [E_MarkGivenUp db msg, E_LogError err]
            | None \<Rightarrow> [E_MarkGivenUp db msg]))"

text \<open>
  The deferred function of \<open>handle\<close>, run with the values \<open>err\<close> and \<open>canCommit\<close> have
  when \<open>handle\<close> returns; it gives the error \<open>handle\<close> returns.
  \<^verbatim>\<open>
  defer func() {
      if err == nil {
          err = tx.Commit()
      } else if canCommit {
          if err2 := tx.Commit(); err2 != nil { mq.Logger.Error(err2) }
      } else {
          if err2 := tx.Rollback(); err2 != nil { mq.Logger.Error(err2) }
      }
      cancel()
  }()
  \<close>
\<close>

definition handle_deferred ::
  "'v world \<Rightarrow> error option \<Rightarrow> bool \<Rightarrow> error option \<times> 'v event list" where
  "handle_deferred w err canCommit =
     (case err of
        None \<Rightarrow> (tx_Commit w, [E_Commit, E_Cancel])
      | Some e \<Rightarrow>
          if canCommit then (Some e, [E_Commit] @ log_error (tx_Commit w) @ [E_Cancel])
          else (Some e, [E_Rollback] @ log_error (tx_Rollback w) @ [E_Cancel]))"

text \<open>
  \<^verbatim>\<open>
  handler, err := mq.handlerOf(msg)
  if err == nil {
      if retryAfter, canCommit, err = handler(ctx, tx, msg); err == nil {
          err = mq.Table.MarkSuccess(tx, msg)
      } else if canCommit {
          mq.markFail(tx, msg, retryAfter)
      } else {
          go mq.markFail(mq.DB, msg, retryAfter)
          time.Sleep(100 * time.Millisecond)
      }
  } else {
      canCommit = true
      mq.markFail(tx, msg, time.Minute)
  }
  return
  \<close>
  The result is \<open>(retryAfter, err)\<close> and the calls made.
\<close>

definition handle :: "'v world \<Rightarrow> 'v Message \<Rightarrow> (duration \<times> error option) \<times> 'v event list" where
  "handle w msg =
     (case handlerOf w msg of
        Inr handler \<Rightarrow>
          (case handler msg of (retryAfter, canCommit, herr) \<Rightarrow>
             (case herr of
                None \<Rightarrow>
                  (let err = Table_MarkSuccess w msg;
                       (err', evs) = handle_deferred w err canCommit
                   in ((retryAfter, err'), [E_Handler msg, E_MarkSuccess msg] @ evs))
              | Some e \<Rightarrow>
                  if canCommit
                  then (let (err', evs) = handle_deferred w (Some e) canCommit
                        in ((retryAfter, err'),
                            [E_Handler msg] @ markFail w ClaimTx msg retryAfter @ evs))
                  else (let (err', evs) = handle_deferred w (Some e) canCommit
                        in ((retryAfter, err'),
                            [E_Handler msg, E_Go (markFail w TheDB msg retryAfter),
                             E_Sleep (100 * Millisecond)] @ evs))))
      | Inl e \<Rightarrow>
          (let canCommit = True;
               (err', evs) = handle_deferred w (Some e) canCommit
           in ((0, err'), markFail w ClaimTx msg Minute @ evs)))"

text \<open>
  \<open>beginTx\<close>: the error of \<open>mq.DB.BeginTx\<close>, and the calls made.
\<close>

definition beginTx :: "'v SqlMQ \<Rightarrow> 'v world \<Rightarrow> error option \<times> 'v event list" where
  "beginTx mq w =
     (let txTimeout = (if TxTimeout mq \<le>s 0 then Minute else TxTimeout mq)
      in case DB_BeginTx w of
           Some err \<Rightarrow> (Some err, [E_BeginTx txTimeout, E_Cancel])
         | None \<Rightarrow> (None, [E_BeginTx txTimeout]))"


text \<open>\<open>time.Until(t)\<close> is \<open>t.Sub(time.Now())\<close>, which stops at the ends of \<open>Duration\<close>.\<close>

definition Until :: "time \<Rightarrow> time \<Rightarrow> duration" where
  "Until current t =
     (let d = t - current
      in if d > 2 ^ 63 - 1 then word_of_int (2 ^ 63 - 1)
         else if d < - (2 ^ 63) then word_of_int (- (2 ^ 63))
         else word_of_int d)"

text \<open>
  \<^verbatim>\<open>
  tx, cancel, err := mq.beginTx()
  if err != nil { return }
  msg, err := mq.Table.EarliestMessage(tx)
  if msg != nil { wait = time.Until(msg.ConsumeAt()) } else { wait = idleWait }
  if wait > 0 || err != nil {
      if err2 := tx.Rollback(); err2 != nil { mq.Logger.Error(err2) }
      cancel()
      return
  }
  go mq.Logger.Record(func(ctx context.Context) error {
      retryAfter, handleErr = mq.handle(ctx, cancel, tx, msg)
      return handleErr
  }, ...)
  return
  \<close>
  The result is \<open>(wait, err)\<close> and the calls made.
\<close>

definition consumeOne ::
  "'v SqlMQ \<Rightarrow> 'v world \<Rightarrow> duration \<Rightarrow> (duration \<times> error option) \<times> 'v event list" where
  "consumeOne mq w idleWait =
     (case beginTx mq w of
        (Some err, evs) \<Rightarrow> ((0, Some err), evs)
      | (None, evs) \<Rightarrow>
          (case Table_EarliestMessage w of (msg, err) \<Rightarrow>
             (let wait = (case msg of Some m \<Rightarrow> Until (time_Now w) (ConsumeAt m)
                          | None \<Rightarrow> idleWait)
              in if 0 <s wait \<or> err \<noteq> None
                 then ((wait, err),
                       evs @ [E_EarliestMessage, E_Rollback] @ log_error (tx_Rollback w)
                         @ [E_Cancel])
                 else (case handle w msg of ((retryAfter, handleErr), hevs) \<Rightarrow>
                         ((wait, err),
                          evs @ [E_EarliestMessage, E_Go (hevs @ [E_Record handleErr])])))))"

text \<open>
  The loop of \<open>consume\<close>, from the \<open>i\<close>-th call of \<open>consumeOne\<close> on, with the calls made so
  far in this loop. It returns the wait, the calls and the number of the next call; it is
  \<open>None\<close> when the loop never returns.
  \<^verbatim>\<open>
  for {
      if wait, err := mq.consumeOne(idleWait); err != nil {
          mq.Logger.Error(err)
          return errorWait
      } else if wait > 0 {
          if wait > idleWait { wait = idleWait }
          return wait
      }
  }
  \<close>
\<close>

partial_function (option) consume_loop ::
  "'v SqlMQ \<Rightarrow> duration \<Rightarrow> duration \<Rightarrow> nat \<Rightarrow> 'v event list
     \<Rightarrow> (duration \<times> 'v event list \<times> nat) option" where
  "consume_loop mq idleWait errorWait i sofar =
     (case consumeOne mq (world_at mq i) idleWait of ((wait, err), evs) \<Rightarrow>
        (case err of
           Some e \<Rightarrow> Some (errorWait, sofar @ evs @ [E_LogError e], Suc i)
         | None \<Rightarrow>
             if 0 <s wait
             then Some (if idleWait <s wait then idleWait else wait, sofar @ evs, Suc i)
             else consume_loop mq idleWait errorWait (Suc i) (sofar @ evs)))"

text \<open>
  \<open>consume\<close> at the \<open>k\<close>-th call of \<open>noQueues\<close> and the \<open>i\<close>-th call of \<open>consumeOne\<close>.
\<close>

definition consume ::
  "'v SqlMQ \<Rightarrow> duration \<Rightarrow> duration \<Rightarrow> nat \<times> nat
     \<Rightarrow> (duration \<times> 'v event list \<times> nat \<times> nat) option" where
  "consume mq idleWait errorWait st =
     (case st of (k, i) \<Rightarrow>
        if noQueues_at mq k then Some (idleWait, [], (Suc k, i))
        else map_option (\<lambda>(wait, evs, i'). (wait, evs, (Suc k, i')))
               (consume_loop mq idleWait errorWait i []))"

text \<open>
  One round of the loop of \<open>Consume\<close>: the calls made, and the state in which the next
  round starts.
  \<^verbatim>\<open>
  wait = mq.consume(idleWait, errorWait)
  if wait > 0 {
      select {
      case <-time.NewTimer(wait).C:
      case <-mq.consumeNotify:
      }
  }
  \<close>
\<close>

definition Consume_round ::
  "'v SqlMQ \<Rightarrow> duration \<Rightarrow> duration \<Rightarrow> nat \<times> nat \<Rightarrow> ('v event list \<times> nat \<times> nat) option" where
  "Consume_round mq idleWait errorWait st =
     map_option
       (\<lambda>(wait, evs, st'). (evs @ (if 0 <s wait then [E_Wait wait] else []), st'))
       (consume mq idleWait errorWait st)"



text \<open>
  Within one round of \<open>consume\<close>: the calls of \<open>consumeOne\<close> numbered \<open>i0\<close> up to \<open>i\<close>
  (excluded) all found a message to dispatch (no error, no wait), and the calls they made.
\<close>

definition no_wait_attempts :: "'v SqlMQ \<Rightarrow> duration \<Rightarrow> nat \<Rightarrow> nat \<Rightarrow> bool" where
  "no_wait_attempts mq idleWait i0 i =
     list_all (\<lambda>j. case fst (consumeOne mq (world_at mq j) idleWait) of
                      (wait, err) \<Rightarrow> err = None \<and> \<not> 0 <s wait) [i0..<i]"

definition attempts_events :: "'v SqlMQ \<Rightarrow> duration \<Rightarrow> nat \<Rightarrow> nat \<Rightarrow> 'v event list" where
  "attempts_events mq idleWait i0 i =
     concat (map (\<lambda>j. snd (consumeOne mq (world_at mq j) idleWait)) [i0..<i])"

section \<open>Concrete inputs\<close>

definition demo_table :: stdTable where
  "demo_table = \<lparr>name = ''mq'', queues = [''email''], earliestMessageSql = None\<rparr>"

definition row_a :: row where
  "row_a = \<lparr>r_id = 1, r_queue = ''email'', r_data = ''{}'', r_status = [],
            r_created_at = 1, r_try_count = 0, r_retry_at = 5\<rparr>"

definition row_b :: row where
  "row_b = \<lparr>r_id = 2, r_queue = ''email'', r_data = ''{}'', r_status = [],
            r_created_at = 2, r_try_count = 0, r_retry_at = 5\<rparr>"

definition demo_db :: db where
  "demo_db = \<lparr>rows = [row_a, row_b], next_id = 3, executed = []\<rparr>"

text \<open>A clock at 5000 ns, a \<open>json.Marshal\<close> that fails, a database that works.\<close>

definition demo_env :: "unit env" where
  "demo_env = \<lparr>now = 5000, json_Marshal = (\<lambda>v. Inl ''json: unsupported type''),
               db_fault = (\<lambda>s. None)\<rparr>"

definition demo_message :: "unit StdMessage" where
  "demo_message = \<lparr>MsgId = 1, Queue = ''email'', Data = Bytes ''{}'', Status = [],
                   CreatedAt = 0, TryCount = 0, RetryAt = 0\<rparr>"

text \<open>A handler that returns the given result for every message.\<close>

definition returning :: "duration \<times> bool \<times> error option \<Rightarrow> unit handler" where
  "returning r m = r"

text \<open>
  A world where every call succeeds and the handler of every queue returns
  \<open>(0, true, nil)\<close>; the claimed message was due at 1000 ns and the clock is at 5000 ns.
\<close>

definition calm_world :: "unit world" where
  "calm_world =
     \<lparr>handlerOf = (\<lambda>m. Inr (returning (0, True, None))),
      Table_MarkSuccess = (\<lambda>m. None),
      Table_MarkRetry = (\<lambda>c m d. None),
      Table_MarkGivenUp = (\<lambda>c m. None),
      tx_Commit = None,
      tx_Rollback = None,
      DB_BeginTx = None,
      Table_EarliestMessage = (Some (demo_message\<lparr>CreatedAt := 1000, RetryAt := 1000\<rparr>), None),
      time_Now = 5000\<rparr>"

definition due_message :: "unit Message" where
  "due_message = Some (demo_message\<lparr>CreatedAt := 1000, RetryAt := 1000\<rparr>)"

text \<open>The calm world with a handler that returns \<open>r\<close>.\<close>

definition handled_world :: "duration \<times> bool \<times> error option \<Rightarrow> unit world" where
  "handled_world r = calm_world\<lparr>handlerOf := (\<lambda>m. Inr (returning r))\<rparr>"

text \<open>
  The handler returns \<open>(5, canCommit, nil)\<close> and \<open>MarkSuccess\<close> fails.
\<close>

definition lost_success_world :: "bool \<Rightarrow> unit world" where
  "lost_success_world canCommit =
     (handled_world (5, canCommit, None))
       \<lparr>Table_MarkSuccess := (\<lambda>m. Some (DBError ''connection lost''))\<rparr>"

text \<open>No handler is registered for the queue of the message.\<close>

definition ghost_world :: "unit world" where
  "ghost_world = calm_world\<lparr>handlerOf := (\<lambda>m. Inl (OtherError ''unknown queue''))\<rparr>"

text \<open>
  An engine with the default waits: its first call of \<open>consumeOne\<close> meets the calm
  world, and from then on the database refuses every transaction.
\<close>

definition flaky_mq :: "unit SqlMQ" where
  "flaky_mq =
     \<lparr>IdleWait = 0, ErrorWait = 0, TxTimeout = 0, CleanInterval = 0,
      validate_result = None,
      noQueues_at = (\<lambda>k. False),
      world_at = (\<lambda>i. if i = 0 then calm_world
                       else calm_world\<lparr>DB_BeginTx := Some (DBError ''connection refused'')\<rparr>)\<rparr>"


section \<open>Properties\<close>

subsection \<open>Properties of \<open>quote\<close>\<close>

lemma Replace_single:
  "Replace s [a] new = concat (map (\<lambda>c. if c = a then new else [c]) s)"
  by (induction s) simp_all

lemma strip_NUL_filter:
  "concat (map (\<lambda>c. if c = NUL then [] else [c]) s) = filter (\<lambda>c. c \<noteq> NUL) s"
  by (induction s) simp_all

lemma escape_spec_filter:
  "escape_spec s =
     filter (\<lambda>c. c \<noteq> NUL) (concat (map (\<lambda>c. if c = SQ then [SQ, SQ] else [c]) s))"
  by (induction s) (simp_all add: escape_spec_def)

text \<open>
  C8. For every input string, \<open>quote\<close> doubles every single-quote character, removes
  every NUL byte and wraps the result in single quotes: it is the escaping of the
  specification.
\<close>

theorem quote_refines_spec: "quote s = quote_spec s"
  by (simp add: quote_def quote_spec_def Replace_single strip_NUL_filter escape_spec_filter)

lemma unquote_body_escape:
  "unquote_body (escape_spec s @ [SQ]) = Some (filter (\<lambda>c. c \<noteq> NUL) s)"
proof (induction s)
  case Nil
  show ?case by (simp add: escape_spec_def)
next
  case (Cons c s)
  have step: "escape_spec (c # s) =
      (if c = SQ then [SQ, SQ] else if c = NUL then [] else [c]) @ escape_spec s"
    by (simp add: escape_spec_def)
  show ?case
  proof (cases "c = SQ")
    case True
    with Cons step show ?thesis by simp
  next
    case False
    note nq = this
    show ?thesis
    proof (cases "c = NUL")
      case True
      with Cons step show ?thesis by simp
    next
      case False
      obtain d ds where "escape_spec s @ [SQ] = d # ds"
        by (cases "escape_spec s @ [SQ]") auto
      with Cons step nq False show ?thesis by simp
    qed
  qed
qed

lemma unquote_quote: "unquote (quote s) = Some (filter (\<lambda>c. c \<noteq> NUL) s)"
  using unquote_body_escape [of s]
  by (simp add: quote_def unquote_def Replace_single strip_NUL_filter
      escape_spec_filter [symmetric])

subsection \<open>The dispatcher\<close>

lemma handle_ok:
  assumes "handlerOf w msg = Inr h" and "h msg = (retryAfter, canCommit, None)"
  shows "handle w msg =
     (case Table_MarkSuccess w msg of
        None \<Rightarrow>
          ((retryAfter, tx_Commit w), [E_Handler msg, E_MarkSuccess msg, E_Commit, E_Cancel])
      | Some e \<Rightarrow>
          ((retryAfter, Some e),
           [E_Handler msg, E_MarkSuccess msg] @
           (if canCommit then [E_Commit] @ log_error (tx_Commit w)
            else [E_Rollback] @ log_error (tx_Rollback w)) @ [E_Cancel]))"
  using assms by (simp add: handle_def handle_deferred_def split: option.splits)

lemma handle_fail:
  assumes "handlerOf w msg = Inr h" and "h msg = (retryAfter, canCommit, Some e)"
  shows "handle w msg =
     ((retryAfter, Some e),
      (if canCommit
       then [E_Handler msg] @ markFail w ClaimTx msg retryAfter @
            [E_Commit] @ log_error (tx_Commit w) @ [E_Cancel]
       else [E_Handler msg, E_Go (markFail w TheDB msg retryAfter),
             E_Sleep (100 * Millisecond)] @
            [E_Rollback] @ log_error (tx_Rollback w) @ [E_Cancel]))"
  using assms by (simp add: handle_def handle_deferred_def split: option.splits)

lemma handle_unknown:
  assumes "handlerOf w msg = Inl e"
  shows "handle w msg =
     ((0, Some e),
      markFail w ClaimTx msg Minute @ [E_Commit] @ log_error (tx_Commit w) @ [E_Cancel])"
  using assms by (simp add: handle_def handle_deferred_def)

lemma markFail_sint:
  "markFail w db msg retryAfter =
     (if 0 \<le> sint retryAfter
      then (case Table_MarkRetry w db msg retryAfter of
              None \<Rightarrow> [E_MarkRetry db msg retryAfter, E_TriggerConsume]
            | Some err \<Rightarrow> [E_MarkRetry db msg retryAfter, E_LogError err])
      else E_MarkGivenUp db msg # log_error (Table_MarkGivenUp w db msg))"
  by (simp add: markFail_def word_sle_eq log_error_def split: option.splits)

lemma sint_Minute: "sint Minute = 60000000000"
  by (simp add: Minute_def)

lemma consumeOne_dispatch:
  assumes "DB_BeginTx w = None" and "Table_EarliestMessage w = (Some m, None)"
    and "\<not> 0 <s Until (time_Now w) (ConsumeAt m)"
  shows "consumeOne mq w idleWait =
     ((Until (time_Now w) (ConsumeAt m), None),
      [E_BeginTx (if TxTimeout mq \<le>s 0 then Minute else TxTimeout mq), E_EarliestMessage,
       E_Go (snd (handle w (Some m)) @ [E_Record (snd (fst (handle w (Some m))))])])"
  using assms
  by (simp add: consumeOne_def beginTx_def Let_def split: prod.splits)

text \<open>
  C1 (as amended). For every handler invocation that returns \<open>err == nil\<close>, the dispatcher
  calls \<open>MarkSuccess\<close> on the claim transaction right after the handler and marks no
  failure; when \<open>MarkSuccess\<close> succeeds it commits and returns what the commit returns,
  whatever \<open>retryAfter\<close> and \<open>canCommit\<close> are (also when \<open>canCommit\<close> is false).
\<close>

theorem handle_success_commits:
  assumes "handlerOf w msg = Inr h" and "h msg = (retryAfter, canCommit, None)"
  shows "(\<exists>rest. snd (handle w msg) = [E_Handler msg, E_MarkSuccess msg] @ rest \<and>
                 set rest \<subseteq> {E_Commit, E_Rollback, E_Cancel} \<union> range E_LogError)
       \<and> (Table_MarkSuccess w msg = None \<longrightarrow>
            handle w msg =
              ((retryAfter, tx_Commit w),
               [E_Handler msg, E_MarkSuccess msg, E_Commit, E_Cancel]))"
  using handle_ok [OF assms]
  by (auto simp: log_error_def split: option.splits)

theorem handle_success_commits_witness:
  "handle (handled_world (5, False, None)) due_message =
     ((5, None), [E_Handler due_message, E_MarkSuccess due_message, E_Commit, E_Cancel])"
  using handle_success_commits
    [of "handled_world (5, False, None)" due_message "returning (5, False, None)" 5 False]
  by (simp add: handled_world_def calm_world_def returning_def)

text \<open>
  When \<open>MarkSuccess\<close> fails after a handler returned \<open>(5, false, nil)\<close>, the dispatcher
  rolls the transaction back and does not commit; after \<open>(5, true, nil)\<close> it commits:
  \<open>canCommit\<close> has decided it.
\<close>

theorem handle_success_counterexample:
  "handlerOf (lost_success_world False) due_message = Inr (returning (5, False, None)) \<and>
   returning (5, False, None) due_message = (5, False, None) \<and>
   handle (lost_success_world False) due_message =
     ((5, Some (DBError ''connection lost'')),
      [E_Handler due_message, E_MarkSuccess due_message, E_Rollback, E_Cancel]) \<and>
   E_Commit \<notin> set (snd (handle (lost_success_world False) due_message)) \<and>
   handle (lost_success_world True) due_message =
     ((5, Some (DBError ''connection lost'')),
      [E_Handler due_message, E_MarkSuccess due_message, E_Commit, E_Cancel])"
  by (simp add: lost_success_world_def handled_world_def calm_world_def returning_def
      handle_def handle_deferred_def log_error_def)

text \<open>
  C2. For every failed handler result, the mark-fail step goes by the sign of
  \<open>retryAfter\<close>: when it is not negative, \<open>MarkRetry\<close> is called with that delay and,
  when \<open>MarkRetry\<close> succeeds, \<open>TriggerConsume\<close> is signalled; when it is negative,
  \<open>MarkGivenUp\<close> is called and no wake-up is signalled. The dispatcher runs this step for
  every handler result with an error: on the claim transaction when \<open>canCommit\<close> holds,
  in a goroutine on the database otherwise.
\<close>

theorem markFail_by_sign:
  "markFail w db msg retryAfter =
     (if 0 \<le> sint retryAfter
      then (case Table_MarkRetry w db msg retryAfter of
              None \<Rightarrow> [E_MarkRetry db msg retryAfter, E_TriggerConsume]
            | Some err \<Rightarrow> [E_MarkRetry db msg retryAfter, E_LogError err])
      else E_MarkGivenUp db msg # log_error (Table_MarkGivenUp w db msg))
   \<and> (sint retryAfter < 0 \<longrightarrow> E_TriggerConsume \<notin> set (markFail w db msg retryAfter))
   \<and> (handlerOf w msg = Inr h \<and> h msg = (retryAfter, canCommit, Some e) \<longrightarrow>
        snd (handle w msg) =
          (if canCommit
           then [E_Handler msg] @ markFail w ClaimTx msg retryAfter @
                [E_Commit] @ log_error (tx_Commit w) @ [E_Cancel]
           else [E_Handler msg, E_Go (markFail w TheDB msg retryAfter),
                 E_Sleep (100 * Millisecond)] @
                [E_Rollback] @ log_error (tx_Rollback w) @ [E_Cancel]))"
proof (intro conjI impI)
  show "markFail w db msg retryAfter =
     (if 0 \<le> sint retryAfter
      then (case Table_MarkRetry w db msg retryAfter of
              None \<Rightarrow> [E_MarkRetry db msg retryAfter, E_TriggerConsume]
            | Some err \<Rightarrow> [E_MarkRetry db msg retryAfter, E_LogError err])
      else E_MarkGivenUp db msg # log_error (Table_MarkGivenUp w db msg))"
    by (rule markFail_sint)
next
  assume "sint retryAfter < 0"
  then show "E_TriggerConsume \<notin> set (markFail w db msg retryAfter)"
    by (simp add: markFail_sint log_error_def split: option.splits)
next
  assume "handlerOf w msg = Inr h \<and> h msg = (retryAfter, canCommit, Some e)"
  then show "snd (handle w msg) =
          (if canCommit
           then [E_Handler msg] @ markFail w ClaimTx msg retryAfter @
                [E_Commit] @ log_error (tx_Commit w) @ [E_Cancel]
           else [E_Handler msg, E_Go (markFail w TheDB msg retryAfter),
                 E_Sleep (100 * Millisecond)] @
                [E_Rollback] @ log_error (tx_Rollback w) @ [E_Cancel])"
    using handle_fail [of w msg h retryAfter canCommit e] by simp
qed

theorem markFail_by_sign_witness:
  "snd (handle (handled_world (- 1, True, Some (OtherError ''hard''))) due_message) =
     [E_Handler due_message, E_MarkGivenUp ClaimTx due_message, E_Commit, E_Cancel]
   \<and> snd (handle (handled_world (5, False, Some (OtherError ''soft''))) due_message) =
     [E_Handler due_message,
      E_Go [E_MarkRetry TheDB due_message 5, E_TriggerConsume],
      E_Sleep (100 * Millisecond), E_Rollback, E_Cancel]"
  using markFail_by_sign
    [of "handled_world (- 1, True, Some (OtherError ''hard''))"
        ClaimTx due_message "- 1" "returning (- 1, True, Some (OtherError ''hard''))" True
        "OtherError ''hard''"]
    markFail_by_sign
    [of "handled_world (5, False, Some (OtherError ''soft''))"
        TheDB due_message 5 "returning (5, False, Some (OtherError ''soft''))" False
        "OtherError ''soft''"]
  by (simp add: handled_world_def calm_world_def returning_def log_error_def)

text \<open>
  C6 (as amended). For every claimed message whose queue has no registered handler, the
  dispatcher calls \<open>MarkRetry\<close> on the claim transaction with a delay of one minute and
  commits. The unknown-queue error does not reach the consumer loop: \<open>consumeOne\<close>, which
  started the dispatch, returns no error. The dispatcher itself does return that error, to
  \<open>Logger.Record\<close>.
\<close>

theorem unknown_queue_rescheduled:
  assumes "handlerOf w msg = Inl e"
  shows "handle w msg =
           ((0, Some e),
            [E_MarkRetry ClaimTx msg Minute] @
            (case Table_MarkRetry w ClaimTx msg Minute of
               None \<Rightarrow> [E_TriggerConsume]
             | Some err \<Rightarrow> [E_LogError err]) @
            [E_Commit] @ log_error (tx_Commit w) @ [E_Cancel])
       \<and> (DB_BeginTx w = None \<and> Table_EarliestMessage w = (msg, None) \<and> msg = Some m \<and>
          \<not> 0 <s Until (time_Now w) (ConsumeAt m) \<longrightarrow>
            consumeOne mq w idleWait =
              ((Until (time_Now w) (ConsumeAt m), None),
               [E_BeginTx (if TxTimeout mq \<le>s 0 then Minute else TxTimeout mq),
                E_EarliestMessage,
                E_Go (snd (handle w msg) @ [E_Record (Some e)])]))"
proof (intro conjI impI)
  show h: "handle w msg =
           ((0, Some e),
            [E_MarkRetry ClaimTx msg Minute] @
            (case Table_MarkRetry w ClaimTx msg Minute of
               None \<Rightarrow> [E_TriggerConsume]
             | Some err \<Rightarrow> [E_LogError err]) @
            [E_Commit] @ log_error (tx_Commit w) @ [E_Cancel])"
    using handle_unknown [OF assms]
    by (simp add: markFail_sint sint_Minute split: option.splits)
  assume a: "DB_BeginTx w = None \<and> Table_EarliestMessage w = (msg, None) \<and> msg = Some m \<and>
          \<not> 0 <s Until (time_Now w) (ConsumeAt m)"
  then have "consumeOne mq w idleWait =
     ((Until (time_Now w) (ConsumeAt m), None),
      [E_BeginTx (if TxTimeout mq \<le>s 0 then Minute else TxTimeout mq), E_EarliestMessage,
       E_Go (snd (handle w (Some m)) @ [E_Record (snd (fst (handle w (Some m))))])])"
    by (intro consumeOne_dispatch) simp_all
  with a h show "consumeOne mq w idleWait =
              ((Until (time_Now w) (ConsumeAt m), None),
               [E_BeginTx (if TxTimeout mq \<le>s 0 then Minute else TxTimeout mq),
                E_EarliestMessage,
                E_Go (snd (handle w msg) @ [E_Record (Some e)])])"
    by simp
qed

lemma Until_demo: "Until 5000 1000 = - 4000"
  by (simp add: Until_def Let_def)

lemma not_pos_demo: "\<not> 0 <s (- 4000 :: duration)"
  by (simp add: word_sless_alt)

theorem unknown_queue_rescheduled_witness:
  "consumeOne flaky_mq ghost_world Minute =
     ((- 4000, None),
      [E_BeginTx Minute, E_EarliestMessage,
       E_Go [E_MarkRetry ClaimTx due_message Minute, E_TriggerConsume, E_Commit, E_Cancel,
             E_Record (Some (OtherError ''unknown queue''))]])"
  using unknown_queue_rescheduled
    [of ghost_world due_message "OtherError ''unknown queue''"
        "demo_message\<lparr>CreatedAt := 1000, RetryAt := 1000\<rparr>" flaky_mq Minute]
  by (simp add: ghost_world_def calm_world_def due_message_def flaky_mq_def ConsumeAt_def
      demo_message_def Until_demo not_pos_demo log_error_def)

text \<open>
  With no handler registered, the dispatcher returns the unknown-queue error as its own
  error.
\<close>

theorem unknown_queue_counterexample:
  "handlerOf ghost_world due_message = Inl (OtherError ''unknown queue'') \<and>
   handle ghost_world due_message =
     ((0, Some (OtherError ''unknown queue'')),
      [E_MarkRetry ClaimTx due_message Minute, E_TriggerConsume, E_Commit, E_Cancel])"
  by (simp add: ghost_world_def calm_world_def handle_def handle_deferred_def markFail_def
      log_error_def Minute_def word_sle_eq)

subsection \<open>The consumer loop\<close>




lemma consume_loop_wait:
  assumes "consumeOne mq (world_at mq i) idleWait = ((wait, None), evs)" and "0 <s wait"
  shows "consume_loop mq idleWait errorWait i sofar =
           Some (if idleWait <s wait then idleWait else wait, sofar @ evs, Suc i)"
  using assms by (subst consume_loop.simps) simp

lemma consume_loop_again:
  assumes "fst (consumeOne mq (world_at mq i) idleWait) = (wait, None)" and "\<not> 0 <s wait"
  shows "consume_loop mq idleWait errorWait i sofar =
           consume_loop mq idleWait errorWait (Suc i)
             (sofar @ snd (consumeOne mq (world_at mq i) idleWait))"
proof -
  obtain evs where c: "consumeOne mq (world_at mq i) idleWait = ((wait, None), evs)"
    using assms(1) by (cases "consumeOne mq (world_at mq i) idleWait") auto
  show ?thesis
    using assms(2) by (subst consume_loop.simps) (simp add: c)
qed

lemma consume_loop_skip:
  "no_wait_attempts mq idleWait i0 (i0 + n) \<Longrightarrow>
   consume_loop mq idleWait errorWait i0 sofar =
     consume_loop mq idleWait errorWait (i0 + n)
       (sofar @ attempts_events mq idleWait i0 (i0 + n))"
proof (induction n arbitrary: i0 sofar)
  case 0
  show ?case by (simp add: attempts_events_def)
next
  case (Suc n)
  have upt: "[i0..<i0 + Suc n] = i0 # [Suc i0..<Suc i0 + n]"
    by (simp add: upt_conv_Cons)
  from Suc.prems obtain wait where
    first: "fst (consumeOne mq (world_at mq i0) idleWait) = (wait, None)" "\<not> 0 <s wait"
    and rest: "no_wait_attempts mq idleWait (Suc i0) (Suc i0 + n)"
    unfolding no_wait_attempts_def upt by (auto split: prod.splits)
  have "consume_loop mq idleWait errorWait i0 sofar =
        consume_loop mq idleWait errorWait (Suc i0)
          (sofar @ snd (consumeOne mq (world_at mq i0) idleWait))"
    by (rule consume_loop_again [OF first])
  also have "\<dots> = consume_loop mq idleWait errorWait (Suc i0 + n)
      ((sofar @ snd (consumeOne mq (world_at mq i0) idleWait)) @
       attempts_events mq idleWait (Suc i0) (Suc i0 + n))"
    by (rule Suc.IH [OF rest])
  also have "(sofar @ snd (consumeOne mq (world_at mq i0) idleWait)) @
       attempts_events mq idleWait (Suc i0) (Suc i0 + n) =
       sofar @ attempts_events mq idleWait i0 (i0 + Suc n)"
    unfolding attempts_events_def upt by simp
  finally show ?case by simp
qed



lemma Consume_round_wait:
  assumes "\<not> noQueues_at mq k" and "i0 \<le> i" and "no_wait_attempts mq idleWait i0 i"
    and "consumeOne mq (world_at mq i) idleWait = ((wait, None), evs)"
    and "0 <s wait" and "0 <s idleWait"
  shows "Consume_round mq idleWait errorWait (k, i0) =
           Some (attempts_events mq idleWait i0 i @ evs @
                   [E_Wait (if idleWait <s wait then idleWait else wait)],
                 (Suc k, Suc i))"
proof -
  from \<open>i0 \<le> i\<close> obtain n where i: "i = i0 + n"
    using le_Suc_ex by blast
  have pos: "0 <s (if idleWait <s wait then idleWait else wait)"
    using assms(5,6) by (auto simp: word_sless_alt)
  have "consume_loop mq idleWait errorWait i0 [] =
        consume_loop mq idleWait errorWait i ([] @ attempts_events mq idleWait i0 i)"
    using consume_loop_skip [of mq idleWait i0 n errorWait "[]"] assms(3) unfolding i by simp
  also have "\<dots> = Some (if idleWait <s wait then idleWait else wait,
                        ([] @ attempts_events mq idleWait i0 i) @ evs, Suc i)"
    by (rule consume_loop_wait [OF assms(4,5)])
  finally show ?thesis
    using assms(1) pos by (simp add: Consume_round_def consume_def)
qed




subsection \<open>The claim query\<close>

lemma order_le_retry_at: "order_le [C_retry_at] r = (\<lambda>r'. r_retry_at r \<le> r_retry_at r')"
  by (rule ext) auto

lemma unquote_wait: "unquote (SQ # statusWait @ [SQ]) = Some statusWait"
  by (simp add: unquote_def statusWait_def)

lemma queue_literals:
  "(Some q \<in> set (map unquote (sort (map quote qs)))) =
     (q \<in> (filter (\<lambda>c. c \<noteq> NUL)) ` set qs)"
  by (auto simp: unquote_quote image_iff)

lemma candidates_claim:
  "set (candidates (earliestMessageSelect table) locked rs) =
     {r \<in> set rs. r_queue r \<in> (filter (\<lambda>c. c \<noteq> NUL)) ` set (queues table) \<and>
                  r_status r = statusWait \<and> r_id r \<notin> locked}"
  by (auto simp: candidates_def earliestMessageSelect_def unquote_wait queue_literals
      simp del: set_map map_map)

lemma getEarliestMessageSql_fresh:
  "fst (getEarliestMessageSql (SetQueues table qs)) =
     Select (earliestMessageSelect (SetQueues table qs))"
  by (simp add: getEarliestMessageSql_def SetQueues_def Let_def)

text \<open>
  C3 (as amended). The claim query produced for \<open>EarliestMessage\<close> orders by \<open>retry_at\<close>
  alone: what it may return is any row of least \<open>retry_at\<close> among the rows of the
  registered queues that wait and are not locked by another transaction, or no row when
  there is none. Among rows of equal \<open>retry_at\<close> the id does not decide; the row that
  ordering by \<open>retry_at\<close> then by id puts first is one of the rows it may return.
\<close>

theorem claim_query_least_retry_at:
  "fst (getEarliestMessageSql (SetQueues table qs)) =
     Select (earliestMessageSelect (SetQueues table qs))
   \<and> sel_order_by (earliestMessageSelect table) = [C_retry_at]
   \<and> set (candidates (earliestMessageSelect table) locked rs) =
       {r \<in> set rs. r_queue r \<in> (filter (\<lambda>c. c \<noteq> NUL)) ` set (queues table) \<and>
                    r_status r = statusWait \<and> r_id r \<notin> locked}
   \<and> may_return (earliestMessageSelect table) locked rs (Some r) =
       (r \<in> set (candidates (earliestMessageSelect table) locked rs) \<and>
        list_all (\<lambda>r'. r_retry_at r \<le> r_retry_at r')
          (candidates (earliestMessageSelect table) locked rs))
   \<and> may_return (earliestMessageSelect table) locked rs None =
       (candidates (earliestMessageSelect table) locked rs = [])
   \<and> (r \<in> set (candidates (earliestMessageSelect table) locked rs) \<and>
      list_all (order_le [C_retry_at, C_id] r)
        (candidates (earliestMessageSelect table) locked rs) \<longrightarrow>
      may_return (earliestMessageSelect table) locked rs (Some r))"
proof -
  have 1: "sel_order_by (earliestMessageSelect table) = [C_retry_at]"
    by (simp add: earliestMessageSelect_def)
  have 2: "sel_limit (earliestMessageSelect table) = 1"
    by (simp add: earliestMessageSelect_def)
  have 3: "may_return (earliestMessageSelect table) locked rs (Some r) =
       (r \<in> set (candidates (earliestMessageSelect table) locked rs) \<and>
        list_all (\<lambda>r'. r_retry_at r \<le> r_retry_at r')
          (candidates (earliestMessageSelect table) locked rs))"
    by (simp add: may_return_def 1 2 order_le_retry_at del: order_le.simps)
  have 4: "may_return (earliestMessageSelect table) locked rs None =
       (candidates (earliestMessageSelect table) locked rs = [])"
    by (simp add: may_return_def 2)
  have 5: "r \<in> set (candidates (earliestMessageSelect table) locked rs) \<and>
        list_all (order_le [C_retry_at, C_id] r)
          (candidates (earliestMessageSelect table) locked rs) \<longrightarrow>
        may_return (earliestMessageSelect table) locked rs (Some r)"
    unfolding 3 by (auto simp: list_all_iff)
  from getEarliestMessageSql_fresh [of table qs] 1 candidates_claim [of table locked rs] 3 4 5
  show ?thesis by blast
qed

lemma demo_candidates:
  "candidates (earliestMessageSelect demo_table) {} [row_a, row_b] = [row_a, row_b]"
  by (simp add: candidates_def earliestMessageSelect_def demo_table_def row_a_def row_b_def
      quote_def unquote_def statusWait_def)

theorem claim_query_least_retry_at_witness:
  "may_return (earliestMessageSelect demo_table) {} [row_a, row_b] (Some row_a)"
  using claim_query_least_retry_at [of demo_table "[''email'']" "{}" "[row_a, row_b]" row_a]
  by (simp add: demo_candidates) (simp add: row_a_def row_b_def)

text \<open>
  Two waiting rows of the same queue with the same \<open>retry_at\<close>: the query may return the
  one with the greater id, which ordering by \<open>retry_at\<close> then by id puts second.
\<close>

theorem claim_query_tie_counterexample:
  "may_return (earliestMessageSelect demo_table) {} [row_a, row_b] (Some row_b) \<and>
   row_a \<in> set (candidates (earliestMessageSelect demo_table) {} [row_a, row_b]) \<and>
   r_retry_at row_a = r_retry_at row_b \<and>
   \<not> order_le [C_retry_at, C_id] row_b row_a"
  by (simp add: may_return_def demo_candidates)
     (simp add: earliestMessageSelect_def row_a_def row_b_def)

subsection \<open>The mark operations and \<open>ProduceMessage\<close>\<close>

lemma update_rows_retry:
  "update_rows [Inc_try_count, Set_retry_at t] i rs = Some rs' \<Longrightarrow>
   rs' = map (\<lambda>r. if r_id r = i
                   then r\<lparr>r_try_count := r_try_count r + 1, r_retry_at := t\<rparr> else r) rs"
  by (induction rs arbitrary: rs') (auto split: if_splits option.splits)

lemma Exec_cases:
  "Exec e sql d = (res, d') \<Longrightarrow>
   (res = None \<and> run_stmt sql (d\<lparr>executed := executed d @ [sql]\<rparr>) = Some d' \<and>
    db_fault e sql = None) \<or>
   ((\<exists>m. res = Some (DBError m)) \<and> d' = d\<lparr>executed := executed d @ [sql]\<rparr>)"
  by (auto simp: Exec_def Let_def split: option.splits)

lemma Exec_executed: "executed (snd (Exec e sql d)) = executed d @ [sql]"
  by (cases sql) (auto simp: Exec_def Let_def insert_row_def split: option.splits)

lemma Exec_not_serialization: "fst (Exec e sql d) \<noteq> Some (SerializationError x)"
  by (auto simp: Exec_def Let_def split: option.splits)

text \<open>
  C4. For every message, \<open>MarkRetry\<close> sets \<open>retry_at\<close> to now plus \<open>retryAfter\<close> (at the
  microsecond resolution of the column) and increments \<open>try_count\<close> by exactly one, in
  the rows with the id of the message, and leaves every other field, in particular the
  status, and every other row unchanged; when the database returns an error, no row is
  changed.
\<close>

theorem MarkRetry_effect:
  assumes "MarkRetry e table msg retryAfter d = (res, d')"
  shows "(res = None \<longrightarrow>
            rows d' =
              map (\<lambda>r. if r_id r = sint (MsgId msg)
                        then r\<lparr>r_try_count := r_try_count r + 1,
                               r_retry_at := (now e + sint retryAfter) div 1000\<rparr>
                        else r) (rows d))
       \<and> (res \<noteq> None \<longrightarrow> rows d' = rows d)
       \<and> map r_status (rows d') = map r_status (rows d)
       \<and> next_id d' = next_id d"
proof -
  let ?t = "Format_rfc3339Micro (Add (now e) retryAfter)"
  let ?sql = "Update \<lparr>upd_table = name table,
                      upd_set = [Inc_try_count, Set_retry_at ?t],
                      upd_where_id = sint (MsgId msg)\<rparr>"
  from assms have ex: "Exec e ?sql d = (res, d')"
    by (simp add: MarkRetry_def)
  from Exec_cases [OF ex] show ?thesis
  proof
    assume ok: "res = None \<and> run_stmt ?sql (d\<lparr>executed := executed d @ [?sql]\<rparr>) = Some d' \<and>
                db_fault e ?sql = None"
    then obtain rs' where u: "update_rows [Inc_try_count, Set_retry_at ?t]
                                (sint (MsgId msg)) (rows d) = Some rs'"
      and d': "d' = d\<lparr>executed := executed d @ [?sql], rows := rs'\<rparr>"
      by auto
    from update_rows_retry [OF u] d' ok show ?thesis
      by (simp add: Add_def Format_rfc3339Micro_def comp_def)
  next
    assume "(\<exists>m. res = Some (DBError m)) \<and> d' = d\<lparr>executed := executed d @ [?sql]\<rparr>"
    then show ?thesis by auto
  qed
qed

lemma MarkRetry_demo:
  "MarkRetry demo_env demo_table demo_message 3000 demo_db =
     (None,
      \<lparr>rows = [row_a\<lparr>r_try_count := 1, r_retry_at := 8\<rparr>, row_b], next_id = 3,
       executed = [Update \<lparr>upd_table = ''mq'', upd_set = [Inc_try_count, Set_retry_at 8],
                           upd_where_id = 1\<rparr>]\<rparr>)"
  by (simp add: MarkRetry_def Exec_def Let_def demo_env_def demo_table_def demo_message_def
      demo_db_def row_a_def row_b_def Add_def Format_rfc3339Micro_def smallint_ok_def)

theorem MarkRetry_effect_witness:
  "fst (MarkRetry demo_env demo_table demo_message 3000 demo_db) = None \<and>
   rows (snd (MarkRetry demo_env demo_table demo_message 3000 demo_db)) =
     [row_a\<lparr>r_try_count := 1, r_retry_at := 8\<rparr>, row_b]"
  using MarkRetry_effect [OF MarkRetry_demo]
  by (simp add: MarkRetry_demo)

lemma ProduceMessage_cases:
  assumes "h p = Some m"
  shows "ProduceMessage e table p (h, d) =
     (case serialize e (Data m) of
        Inl err \<Rightarrow> (Return (Some (SerializationError err)), h, d)
      | Inr jsonData \<Rightarrow>
          (Return (fst (Exec e (insertSql table (fill_defaults e m) jsonData) d)),
           h(p \<mapsto> fill_defaults e m),
           snd (Exec e (insertSql table (fill_defaults e m) jsonData) d)))"
  using assms by (simp add: ProduceMessage_def Let_def split: sum.splits prod.splits)









text \<open>
  C10. When the \<open>Data\<close> of a message is a byte slice, \<open>ProduceMessage\<close> puts those bytes
  into the statement as they are (quoted, like every literal), without \<open>json.Marshal\<close>:
  the call does not depend on \<open>json.Marshal\<close> and never returns a serialization error.
  A serialization error comes only from \<open>json.Marshal\<close> on a payload that is not a byte
  slice, before the defaults are filled and before anything is sent: then no statement is
  sent, no row is inserted and the message is unchanged.
\<close>

theorem ProduceMessage_serialization:
  "(h p = Some m \<and> Data m = Bytes b \<longrightarrow>
      (\<exists>err d' s. ProduceMessage e table p (h, d) = (Return err, h(p \<mapsto> fill_defaults e m), d')
         \<and> (\<forall>x. err \<noteq> Some (SerializationError x))
         \<and> executed d' = executed d @ [Insert s] \<and> ins_data s = quote b)
      \<and> ProduceMessage (e\<lparr>json_Marshal := f\<rparr>) table p (h, d) =
          ProduceMessage e table p (h, d))
   \<and> (ProduceMessage e table p (h, d) = (Return (Some (SerializationError x)), h', d') \<longrightarrow>
        h' = h \<and> d' = d \<and>
        (\<exists>m v. h p = Some m \<and> Data m = Other v \<and> json_Marshal e v = Inl x))"
proof (intro conjI impI)
  assume a: "h p = Some m \<and> Data m = Bytes b"
  then have s: "serialize e (Data m) = Inr b"
    by (simp add: serialize_def)
  let ?sql = "insertSql table (fill_defaults e m) b"
  have "ProduceMessage e table p (h, d) =
          (Return (fst (Exec e ?sql d)), h(p \<mapsto> fill_defaults e m), snd (Exec e ?sql d))"
    using a s by (simp add: ProduceMessage_cases)
  moreover have "\<forall>x. fst (Exec e ?sql d) \<noteq> Some (SerializationError x)"
    by (simp add: Exec_not_serialization)
  moreover have "executed (snd (Exec e ?sql d)) = executed d @ [?sql]"
    by (rule Exec_executed)
  moreover have "\<exists>s. ?sql = Insert s \<and> ins_data s = quote b"
    by (simp add: insertSql_def)
  ultimately show "\<exists>err d' s.
       ProduceMessage e table p (h, d) = (Return err, h(p \<mapsto> fill_defaults e m), d')
         \<and> (\<forall>x. err \<noteq> Some (SerializationError x))
         \<and> executed d' = executed d @ [Insert s] \<and> ins_data s = quote b"
    by force
  have "Exec (e\<lparr>json_Marshal := f\<rparr>) sql d = Exec e sql d" for sql
    by (simp add: Exec_def)
  moreover have "fill_defaults (e\<lparr>json_Marshal := f\<rparr>) m = fill_defaults e m"
    by (simp add: fill_defaults_def)
  moreover have "serialize (e\<lparr>json_Marshal := f\<rparr>) (Data m) = Inr b"
    using a by (simp add: serialize_def)
  ultimately show "ProduceMessage (e\<lparr>json_Marshal := f\<rparr>) table p (h, d) =
          ProduceMessage e table p (h, d)"
    using a s by (simp add: ProduceMessage_cases)
next
  assume r: "ProduceMessage e table p (h, d) = (Return (Some (SerializationError x)), h', d')"
  then obtain m where m: "h p = Some m"
    by (cases "h p") (auto simp: ProduceMessage_def)
  show "h' = h" and "d' = d"
    and "\<exists>m v. h p = Some m \<and> Data m = Other v \<and> json_Marshal e v = Inl x"
    using r m Exec_not_serialization [of e _ d x]
    by (auto simp: ProduceMessage_cases serialize_def split: sum.splits data.splits)
qed

lemma ProduceMessage_unserializable:
  "ProduceMessage demo_env demo_table 0 ([0 \<mapsto> demo_message\<lparr>Data := Other ()\<rparr>], demo_db) =
     (Return (Some (SerializationError ''json: unsupported type'')),
      [0 \<mapsto> demo_message\<lparr>Data := Other ()\<rparr>], demo_db)"
  by (simp add: ProduceMessage_def serialize_def demo_env_def demo_message_def)

theorem ProduceMessage_serialization_witness:
  "ProduceMessage demo_env demo_table 0 ([0 \<mapsto> demo_message\<lparr>Data := Other ()\<rparr>], demo_db) =
     (Return (Some (SerializationError ''json: unsupported type'')),
      [0 \<mapsto> demo_message\<lparr>Data := Other ()\<rparr>], demo_db)
   \<and> ProduceMessage (demo_env\<lparr>json_Marshal := (\<lambda>v. Inr ''null'')\<rparr>) demo_table 0
        ([0 \<mapsto> demo_message], demo_db) =
      ProduceMessage demo_env demo_table 0 ([0 \<mapsto> demo_message], demo_db)"
  using ProduceMessage_serialization
    [of "[0 \<mapsto> demo_message\<lparr>Data := Other ()\<rparr>]" 0 "demo_message\<lparr>Data := Other ()\<rparr>"
        "[]" demo_env demo_table demo_db "\<lambda>v. Inr ''null''"
        "''json: unsupported type''" "[0 \<mapsto> demo_message\<lparr>Data := Other ()\<rparr>]" demo_db]
    ProduceMessage_serialization
    [of "[0 \<mapsto> demo_message]" 0 demo_message "''{}''" demo_env demo_table demo_db
        "\<lambda>v. Inr ''null''"]
  by (simp add: ProduceMessage_unserializable) (simp add: demo_message_def)

end
